theory Spec2Isabelle
  imports Main "HOL-Library.Sublist" "HOL-Library.AList"
begin

section \<open>Python text\<close>

text \<open>
  A Python \<open>str\<close> is modelled as a \<open>string\<close>: the list of the bytes of its UTF-8 encoding.
  All text the program compares, splits or searches for is ASCII, and an ASCII byte never
  occurs inside the encoding of another code point, so searching and splitting on bytes
  agrees with Python. Two places are narrower than Python: white space and case mapping
  are those of ASCII (\<open>str.strip\<close> also removes the white space of Unicode outside ASCII,
  \<open>str.lower\<close> also maps letters outside ASCII; no such letter maps to a letter of
  \<open>template\<close> or \<open>example\<close>).
\<close>

definition is_space :: "char \<Rightarrow> bool" where
  "is_space c = (c \<in> set [CHR 0x09, CHR 0x0A, CHR 0x0B, CHR 0x0C, CHR 0x0D,
                         CHR 0x1C, CHR 0x1D, CHR 0x1E, CHR 0x1F, CHR 0x20])"

definition py_strip :: "string \<Rightarrow> string" where
  "py_strip s = rev (dropWhile is_space (rev (dropWhile is_space s)))"

definition lower_char :: "char \<Rightarrow> char" where
  "lower_char c =
     (let n = (of_char c :: nat) in if 65 \<le> n \<and> n \<le> 90 then char_of (n + 32) else c)"

definition py_lower :: "string \<Rightarrow> string" where
  "py_lower s = map lower_char s"

text \<open>\<open>sub in s\<close>: \<open>sub\<close> occurs in \<open>s\<close> as a contiguous run.\<close>

fun py_in :: "string \<Rightarrow> string \<Rightarrow> bool" where
  "py_in sub [] = (sub = [])"
| "py_in sub (c # cs) = (prefix sub (c # cs) \<or> py_in sub cs)"

text \<open>
  \<open>s.split(sep)\<close> and \<open>s.split(sep, maxsplit)\<close>, reading left to right and cutting at
  each occurrence of \<open>sep\<close> that does not overlap the one before. Python raises
  \<open>ValueError\<close> for an empty separator; every separator of the program is a non-empty
  literal, and the model returns the text uncut there.
\<close>

fun cons_hd :: "char \<Rightarrow> string list \<Rightarrow> string list" where
  "cons_hd c [] = [[c]]"
| "cons_hd c (p # ps) = (c # p) # ps"

fun py_split :: "string \<Rightarrow> string \<Rightarrow> string list" where
  "py_split [] s = [s]"
| "py_split (a # as) [] = [[]]"
| "py_split (a # as) (c # cs) =
     (if prefix (a # as) (c # cs) then [] # py_split (a # as) (drop (length as) cs)
      else cons_hd c (py_split (a # as) cs))"

fun py_splitn :: "string \<Rightarrow> nat \<Rightarrow> string \<Rightarrow> string list" where
  "py_splitn [] n s = [s]"
| "py_splitn (a # as) 0 s = [s]"
| "py_splitn (a # as) (Suc n) [] = [[]]"
| "py_splitn (a # as) (Suc n) (c # cs) =
     (if prefix (a # as) (c # cs) then [] # py_splitn (a # as) n (drop (length as) cs)
      else cons_hd c (py_splitn (a # as) (Suc n) cs))"

text \<open>\<open>s.replace(old, new)\<close>: every occurrence, left to right, none overlapping.\<close>

fun py_replace :: "string \<Rightarrow> string \<Rightarrow> string \<Rightarrow> string" where
  "py_replace [] new s = new @ concat (map (\<lambda>c. c # new) s)"
| "py_replace (a # as) new [] = []"
| "py_replace (a # as) new (c # cs) =
     (if prefix (a # as) (c # cs) then new @ py_replace (a # as) new (drop (length as) cs)
      else c # py_replace (a # as) new cs)"

text \<open>\<open>sep.join(xs)\<close>.\<close>

fun py_join :: "string \<Rightarrow> string list \<Rightarrow> string" where
  "py_join sep [] = []"
| "py_join sep [x] = x"
| "py_join sep (x # y # ys) = x @ sep @ py_join sep (y # ys)"

text \<open>The line feed.\<close>

definition nl :: string where
  "nl = [CHR 0x0A]"

text \<open>Decimal digits of a natural number, and of an integer (\<open>str(n)\<close>).\<close>

fun dec_nat :: "nat \<Rightarrow> string" where
  "dec_nat n = (if n < 10 then [char_of (48 + n)] else dec_nat (n div 10) @ [char_of (48 + n mod 10)])"

declare dec_nat.simps [simp del]

definition dec_int :: "int \<Rightarrow> string" where
  "dec_int i = (if i < 0 then CHR ''-'' # dec_nat (nat (- i)) else dec_nat (nat i))"


section \<open>Python values\<close>

text \<open>
  The values \<open>yaml.safe_load\<close> builds and the program passes on: \<open>None\<close>, booleans,
  integers, text, lists and dictionaries (an association list in insertion order).
  Floats, dates, binary data and sets, which the loader can build as well, are left out.
\<close>

datatype pyval =
    PNone
  | PBool bool
  | PInt int
  | PStr string
  | PList "pyval list"
  | PDict "(pyval \<times> pyval) list"

text \<open>The name of a value's type, as exception messages print it.\<close>

fun type_name :: "pyval \<Rightarrow> string" where
  "type_name PNone = ''NoneType''"
| "type_name (PBool b) = ''bool''"
| "type_name (PInt i) = ''int''"
| "type_name (PStr s) = ''str''"
| "type_name (PList xs) = ''list''"
| "type_name (PDict kvs) = ''dict''"

text \<open>Truth value of a value in a condition (\<open>if x:\<close>).\<close>

fun truthy :: "pyval \<Rightarrow> bool" where
  "truthy PNone = False"
| "truthy (PBool b) = b"
| "truthy (PInt i) = (i \<noteq> 0)"
| "truthy (PStr s) = (s \<noteq> [])"
| "truthy (PList xs) = (xs \<noteq> [])"
| "truthy (PDict kvs) = (kvs \<noteq> [])"

text \<open>
  \<open>repr\<close> of text: single quotes, unless the text holds a single quote and no double
  quote; backslash, the quote and control characters escaped. Bytes from 128 on stand as
  they are (printable code points outside ASCII do in Python).
\<close>

definition hex_digit :: "nat \<Rightarrow> char" where
  "hex_digit n = (if n < 10 then char_of (48 + n) else char_of (87 + n))"

definition repr_char :: "char \<Rightarrow> char \<Rightarrow> string" where
  "repr_char q c =
     (let n = (of_char c :: nat) in
      if c = q \<or> c = CHR 0x5C then [CHR 0x5C, c]
      else if c = CHR 0x09 then [CHR 0x5C, CHR ''t'']
      else if c = CHR 0x0A then [CHR 0x5C, CHR ''n'']
      else if c = CHR 0x0D then [CHR 0x5C, CHR ''r'']
      else if n < 32 \<or> n = 127 then [CHR 0x5C, CHR ''x'', hex_digit (n div 16), hex_digit (n mod 16)]
      else [c])"

definition repr_str :: "string \<Rightarrow> string" where
  "repr_str s =
     (let q = (if CHR 0x27 \<in> set s \<and> CHR 0x22 \<notin> set s then CHR 0x22 else CHR 0x27)
      in q # concat (map (repr_char q) s) @ [q])"

text \<open>\<open>repr(v)\<close> and \<open>str(v)\<close>: they differ on text only.\<close>

fun py_repr :: "pyval \<Rightarrow> string" where
  "py_repr PNone = ''None''"
| "py_repr (PBool b) = (if b then ''True'' else ''False'')"
| "py_repr (PInt i) = dec_int i"
| "py_repr (PStr s) = repr_str s"
| "py_repr (PList xs) = ''['' @ py_join '', '' (map py_repr xs) @ '']''"
| "py_repr (PDict kvs) =
     ''{'' @ py_join '', '' (map (\<lambda>(k, v). py_repr k @ '': '' @ py_repr v) kvs) @ ''}''"

fun py_str :: "pyval \<Rightarrow> string" where
  "py_str (PStr s) = s"
| "py_str v = py_repr v"

text \<open>\<open>d.get(k, default)\<close> on a dictionary with text keys.\<close>

definition dict_get :: "(pyval \<times> pyval) list \<Rightarrow> string \<Rightarrow> pyval \<Rightarrow> pyval" where
  "dict_get d k dflt = (case map_of d (PStr k) of None \<Rightarrow> dflt | Some v \<Rightarrow> v)"

text \<open>\<open>d[k] = v\<close>: the value is replaced in place, a new key goes last.\<close>

definition dict_set :: "(pyval \<times> pyval) list \<Rightarrow> string \<Rightarrow> pyval \<Rightarrow> (pyval \<times> pyval) list" where
  "dict_set d k v = AList.update (PStr k) v d"

subsection \<open>Exceptions\<close>

datatype exn =
    IndexError
  | KeyError string
  | TypeError string
  | ValueError string
  | AttributeError string
  | YAMLError string
  | OSError string

text \<open>\<open>str(e)\<close>.\<close>

fun exn_str :: "exn \<Rightarrow> string" where
  "exn_str IndexError = ''list index out of range''"
| "exn_str (KeyError k) = repr_str k"
| "exn_str (TypeError m) = m"
| "exn_str (ValueError m) = m"
| "exn_str (AttributeError m) = m"
| "exn_str (YAMLError m) = m"
| "exn_str (OSError m) = m"

text \<open>\<open>xs[i]\<close> for \<open>i \<ge> 0\<close>.\<close>

definition py_index :: "'a list \<Rightarrow> nat \<Rightarrow> exn + 'a" where
  "py_index xs i = (if i < length xs then Inr (xs ! i) else Inl IndexError)"

text \<open>
  \<open>int(v)\<close>. On text: white space around it is dropped, a sign may come first, the
  digits may be grouped by single underscores.
\<close>

definition is_digit :: "char \<Rightarrow> bool" where
  "is_digit c = (let n = (of_char c :: nat) in 48 \<le> n \<and> n \<le> 57)"

fun digits_value :: "nat \<Rightarrow> string \<Rightarrow> nat option" where
  "digits_value acc [] = Some acc"
| "digits_value acc [c] = (if is_digit c then Some (10 * acc + (of_char c - 48)) else None)"
| "digits_value acc (c # d # ds) =
     (if is_digit c then
        (if d = CHR ''_'' then
           (case ds of [] \<Rightarrow> None
            | e # es \<Rightarrow> if is_digit e then digits_value (10 * acc + (of_char c - 48)) ds else None)
         else digits_value (10 * acc + (of_char c - 48)) (d # ds))
      else None)"

definition int_of_text :: "string \<Rightarrow> int option" where
  "int_of_text s =
     (case py_strip s of
        [] \<Rightarrow> None
      | c # cs \<Rightarrow>
          if c = CHR ''-'' then (if cs = [] then None else map_option (\<lambda>n. - int n) (digits_value 0 cs))
          else if c = CHR ''+'' then (if cs = [] then None else map_option int (digits_value 0 cs))
          else map_option int (digits_value 0 (c # cs)))"

fun py_int :: "pyval \<Rightarrow> exn + int" where
  "py_int (PStr s) =
     (case int_of_text s of
        Some i \<Rightarrow> Inr i
      | None \<Rightarrow> Inl (ValueError (''invalid literal for int() with base 10: '' @ repr_str s)))"
| "py_int (PInt i) = Inr i"
| "py_int (PBool b) = Inr (if b then 1 else 0)"
| "py_int v =
     Inl (TypeError (''int() argument must be a string, a bytes-like object or a real number, not ''
                     @ repr_str (type_name v)))"

section \<open>The environment\<close>

text \<open>
  What the program reaches outside itself: the processes it starts (\<open>git\<close>, \<open>gh\<close>), the
  temporary file it hands to \<open>gh\<close>, the clock and the YAML library. \<open>'w\<close> is the state of
  that outside world; each operation may change it. A finished process gives its exit
  status, standard output and standard error.
\<close>

datatype proc =
    Completed int string string
  | TimeoutExpired
  | LaunchError string

record datetime =
  year :: nat
  month :: nat
  day :: nat
  hour :: nat
  minute :: nat
  second :: nat

record 'w env =
  project_root :: string
  subprocess_run :: "string list \<Rightarrow> 'w \<Rightarrow> proc \<times> 'w"
  named_temporary_file :: "string \<Rightarrow> 'w \<Rightarrow> string \<times> 'w"
  os_unlink :: "string \<Rightarrow> 'w \<Rightarrow> 'w"
  utcnow :: "'w \<Rightarrow> datetime \<times> 'w"
  yaml_safe_load :: "string \<Rightarrow> exn + pyval"
  yaml_dump :: "pyval \<Rightarrow> string"

text \<open>
  The tasks directory and the files under it. \<open>files\<close> gives what reading a path yields
  (its text, or the exception \<open>open\<close> or \<open>read\<close> raises), \<open>write_error\<close> the exception
  that opening a path for writing raises, if any. \<open>printed\<close> is what \<open>print\<close> has written.
\<close>

datatype dir =
    NoDir
  | Dir "string list"
  | NotListable string

record 'w state =
  world :: 'w
  tasks_dir :: dir
  files :: "string \<Rightarrow> exn + string"
  write_error :: "string \<Rightarrow> exn option"
  printed :: "string list"

definition print :: "string \<Rightarrow> 'w state \<Rightarrow> 'w state" where
  "print line st = st\<lparr>printed := printed st @ [line]\<rparr>"

text \<open>The marks the program's messages start with, as UTF-8.\<close>

definition cross_mark :: string where
  "cross_mark = [CHR 0xE2, CHR 0x9D, CHR 0x8C]"

definition check_mark :: string where
  "check_mark = [CHR 0xE2, CHR 0x9C, CHR 0x85]"

definition bar_chart :: string where
  "bar_chart = [CHR 0xF0, CHR 0x9F, CHR 0x93, CHR 0x8A]"

definition clipboard :: string where
  "clipboard = [CHR 0xF0, CHR 0x9F, CHR 0x93, CHR 0x8B]"

definition link_mark :: string where
  "link_mark = [CHR 0xF0, CHR 0x9F, CHR 0x94, CHR 0x97]"

definition label_mark :: string where
  "label_mark = [CHR 0xF0, CHR 0x9F, CHR 0x8F, CHR 0xB7, CHR 0xEF, CHR 0xB8, CHR 0x8F]"

section \<open>Running a command\<close>

text \<open>
  \<open>run_command\<close>: the result dictionary has no \<open>stdout\<close> entry when the launch raised.
  \<open>subprocess.run\<close> raises before it starts anything when an argument is not text or
  holds a NUL byte.
\<close>

record cmd_result =
  returncode :: int
  stdout :: "string option"
  stderr :: string

fun text_args :: "pyval list \<Rightarrow> exn + string list" where
  "text_args [] = Inr []"
| "text_args (PStr s # vs) =
     (if CHR 0x00 \<in> set s then Inl (ValueError ''embedded null byte'')
      else (case text_args vs of Inl e \<Rightarrow> Inl e | Inr ss \<Rightarrow> Inr (s # ss)))"
| "text_args (v # vs) =
     Inl (TypeError (''expected str, bytes or os.PathLike object, not '' @ type_name v))"

definition run_command :: "'w env \<Rightarrow> pyval list \<Rightarrow> 'w \<Rightarrow> cmd_result \<times> 'w" where
  "run_command env cmd w =
     (case text_args cmd of
        Inl e \<Rightarrow> (\<lparr>returncode = 1, stdout = None, stderr = exn_str e\<rparr>, w)
      | Inr args \<Rightarrow>
          (case subprocess_run env args w of
             (Completed rc out err, w') \<Rightarrow> (\<lparr>returncode = rc, stdout = Some out, stderr = err\<rparr>, w')
           | (TimeoutExpired, w') \<Rightarrow>
               (\<lparr>returncode = 1, stdout = None, stderr = ''Command timed out''\<rparr>, w')
           | (LaunchError m, w') \<Rightarrow> (\<lparr>returncode = 1, stdout = None, stderr = m\<rparr>, w')))"

text \<open>\<open>result['stdout']\<close>.\<close>

definition get_stdout :: "cmd_result \<Rightarrow> exn + string" where
  "get_stdout result = (case stdout result of None \<Rightarrow> Inl (KeyError ''stdout'') | Some out \<Rightarrow> Inr out)"

section \<open>Repository Resolver\<close>

datatype repo_info =
    RepoFound string string
  | RepoError string

text \<open>The \<open>repo\<close> entry of the result, when it has one.\<close>

fun repo_of :: "repo_info \<Rightarrow> string option" where
  "repo_of (RepoFound repo url) = Some repo"
| "repo_of (RepoError msg) = None"

text \<open>The template check: \<open>'template' in remote_url.lower() or 'example' in remote_url.lower()\<close>.\<close>

definition is_template_url :: "string \<Rightarrow> bool" where
  "is_template_url remote_url =
     (py_in ''template'' (py_lower remote_url) \<or> py_in ''example'' (py_lower remote_url))"

text \<open>
  The part of \<open>get_repository_info\<close> that works on the remote URL (from the template
  check on), with the method's exception handler around it.
\<close>

definition resolve_remote_url :: "string \<Rightarrow> repo_info" where
  "resolve_remote_url remote_url =
     (if is_template_url remote_url then
        RepoError (cross_mark @
          '' Cannot sync to template repository. Please fork or create your own repository first.'')
      else if py_in ''github.com'' remote_url then
        (case (if prefix ''git@'' remote_url then py_index (py_split '':'' remote_url) 1
               else py_index (py_split ''github.com/'' remote_url) 1) of
           Inl e \<Rightarrow> RepoError (cross_mark @ '' Error getting repository info: '' @ exn_str e)
         | Inr part \<Rightarrow> RepoFound (py_replace ''.git'' [] part) remote_url)
      else RepoError (cross_mark @ '' Not a GitHub repository''))"

definition get_repository_info :: "'w env \<Rightarrow> 'w \<Rightarrow> repo_info \<times> 'w" where
  "get_repository_info env w =
     (case run_command env [PStr ''git'', PStr ''remote'', PStr ''get-url'', PStr ''origin''] w of
        (result, w') \<Rightarrow>
          if returncode result \<noteq> 0 then (RepoError (cross_mark @ '' No git remote origin found''), w')
          else (case get_stdout result of
                  Inl e \<Rightarrow> (RepoError (cross_mark @ '' Error getting repository info: '' @ exn_str e), w')
                | Inr out \<Rightarrow> (resolve_remote_url (py_strip out), w')))"

section \<open>Task Discovery\<close>

text \<open>\<open>os.path.join\<close> of two parts and \<open>os.path.basename\<close>, on POSIX paths.\<close>

definition path_join :: "string \<Rightarrow> string \<Rightarrow> string" where
  "path_join a b =
     (if prefix ''/'' b then b
      else if a = [] \<or> suffix ''/'' a then a @ b
      else a @ ''/'' @ b)"

definition basename :: "string \<Rightarrow> string" where
  "basename p = last (py_split ''/'' p)"

text \<open>A parsed task document: the dictionary \<open>read_task_file\<close> returns.\<close>

record task =
  filepath :: string
  filename :: string
  frontmatter :: "(pyval \<times> pyval) list"
  body :: string
  title :: pyval
  epic :: pyval
  work_stream :: pyval
  labels :: pyval

text \<open>
  \<open>read_task_file\<close>. Only a dictionary has \<open>get\<close>: any other front matter raises
  \<open>AttributeError\<close>, which the handler prints like every other exception.
\<close>

definition read_task_file :: "'w env \<Rightarrow> string \<Rightarrow> 'w state \<Rightarrow> task option \<times> 'w state" where
  "read_task_file env path st =
     (case files st path of
        Inl e \<Rightarrow> (None, print (''Error reading task file '' @ path @ '': '' @ exn_str e) st)
      | Inr content \<Rightarrow>
          if prefix ''---'' content then
            (let parts = py_splitn ''---'' 2 content in
             if length parts \<ge> 3 then
               (case yaml_safe_load env (parts ! 1) of
                  Inl e \<Rightarrow> (None, print (''Error reading task file '' @ path @ '': '' @ exn_str e) st)
                | Inr (PDict fm) \<Rightarrow>
                    (Some \<lparr>filepath = path,
                           filename = basename path,
                           frontmatter = fm,
                           body = py_strip (parts ! 2),
                           title = dict_get fm ''name'' (PStr ''Untitled Task''),
                           epic = dict_get fm ''epic'' PNone,
                           work_stream = dict_get fm ''work_stream'' PNone,
                           labels = dict_get fm ''labels'' (PList [])\<rparr>, st)
                | Inr v \<Rightarrow>
                    (None, print (''Error reading task file '' @ path @ '': '' @ [CHR 0x27] @ type_name v
                                  @ [CHR 0x27] @ '' object has no attribute '' @ [CHR 0x27] @ ''get''
                                  @ [CHR 0x27]) st))
             else (None, st))
          else (None, st))"

text \<open>The loop of \<open>find_epic_tasks\<close> over the directory listing, in the listing's order.\<close>

fun scan_tasks ::
  "'w env \<Rightarrow> string \<Rightarrow> string \<Rightarrow> string list \<Rightarrow> task list \<Rightarrow> 'w state \<Rightarrow> task list \<times> 'w state" where
  "scan_tasks env epic_name dir_path [] tasks st = (tasks, st)"
| "scan_tasks env epic_name dir_path (name # names) tasks st =
     (if prefix (epic_name @ ''-task-'') name \<and> suffix ''.md'' name then
        (case read_task_file env (path_join dir_path name) st of
           (Some task_data, st') \<Rightarrow> scan_tasks env epic_name dir_path names (tasks @ [task_data]) st'
         | (None, st') \<Rightarrow> scan_tasks env epic_name dir_path names tasks st')
      else scan_tasks env epic_name dir_path names tasks st)"

text \<open>
  \<open>find_epic_tasks\<close>. It has no handler of its own: what \<open>os.listdir\<close> raises goes to the
  caller.
\<close>

definition find_epic_tasks :: "'w env \<Rightarrow> string \<Rightarrow> 'w state \<Rightarrow> (exn + task list) \<times> 'w state" where
  "find_epic_tasks env epic_name st =
     (let dir_path = path_join (project_root env) ''docs/development/current/tasks'' in
      case tasks_dir st of
        NoDir \<Rightarrow> (Inr [], st)
      | NotListable m \<Rightarrow> (Inl (OSError m), st)
      | Dir names \<Rightarrow>
          (case scan_tasks env epic_name dir_path names [] st of (tasks, st') \<Rightarrow> (Inr tasks, st')))"

section \<open>Issue Creation\<close>

text \<open>
  What \<open>create_github_issue\<close> is given: a task read from a document, or a title, a body
  and labels. What it returns: the issue record, or the error text.
\<close>

datatype issue_data =
    FromDocument task
  | Direct string string "string list"

record issue =
  number :: pyval
  url :: string
  issue_title :: string

datatype issue_result =
    Success issue
  | Failure string

text \<open>\<open>xs + v\<close> for a list \<open>xs\<close>.\<close>

fun list_concat :: "pyval list \<Rightarrow> pyval \<Rightarrow> exn + pyval list" where
  "list_concat xs (PList ys) = Inr (xs @ ys)"
| "list_concat xs v =
     Inl (TypeError (''can only concatenate list (not '' @ [CHR 0x22] @ type_name v @ [CHR 0x22]
                     @ '') to list''))"

text \<open>The title, body and labels of the issue (the first block of \<open>create_github_issue\<close>).\<close>

fun issue_fields :: "issue_data \<Rightarrow> exn + (string \<times> string \<times> pyval list)" where
  "issue_fields (FromDocument task) =
     (case list_concat [PStr ''oden-epic'', epic task] (labels task) of
        Inl e \<Rightarrow> Inl e
      | Inr ls \<Rightarrow>
          Inr (''['' @ py_str (epic task) @ ''] '' @ py_str (title task),
               body task,
               (if truthy (work_stream task) then ls @ [work_stream task] else ls)))"
| "issue_fields (Direct t b ls) = Inr (t, b, map PStr ls)"

text \<open>The command line handed to \<open>gh\<close>.\<close>

definition issue_command :: "string \<Rightarrow> string \<Rightarrow> string \<Rightarrow> pyval list \<Rightarrow> pyval list" where
  "issue_command repo t temp_path ls =
     [PStr ''gh'', PStr ''issue'', PStr ''create'', PStr ''--repo'', PStr repo, PStr ''--title'', PStr t,
      PStr ''--body-file'', PStr temp_path]
     @ concat (map (\<lambda>label. [PStr ''--label'', label]) ls)"

definition create_github_issue :: "'w env \<Rightarrow> issue_data \<Rightarrow> string \<Rightarrow> 'w \<Rightarrow> issue_result \<times> 'w" where
  "create_github_issue env data repo w =
     (case issue_fields data of
        Inl e \<Rightarrow> (Failure (exn_str e), w)
      | Inr (t, b, ls) \<Rightarrow>
          (case named_temporary_file env b w of
             (temp_path, w1) \<Rightarrow>
               (case run_command env (issue_command repo t temp_path ls) w1 of
                  (result, w2) \<Rightarrow>
                    (let w3 = os_unlink env temp_path w2 in
                     if returncode result = 0 then
                       (case get_stdout result of
                          Inl e \<Rightarrow> (Failure (exn_str e), w3)
                        | Inr out \<Rightarrow>
                            (let issue_url = py_strip out;
                                 issue_number = last (py_split ''/'' issue_url)
                             in (Success \<lparr>number = PStr issue_number, url = issue_url,
                                          issue_title = t\<rparr>, w3)))
                     else (Failure (''Failed to create issue: '' @ stderr result), w3)))))"

section \<open>Task Document Update\<close>

definition pad2 :: "nat \<Rightarrow> string" where
  "pad2 n = (if n < 10 then CHR ''0'' # dec_nat n else dec_nat n)"

definition get_current_iso_datetime :: "'w env \<Rightarrow> 'w \<Rightarrow> string \<times> 'w" where
  "get_current_iso_datetime env w =
     (case utcnow env w of
        (d, w') \<Rightarrow>
          (dec_nat (year d) @ ''-'' @ pad2 (month d) @ ''-'' @ pad2 (day d) @ ''T'' @ pad2 (hour d)
           @ '':'' @ pad2 (minute d) @ '':'' @ pad2 (second d) @ ''Z'', w'))"

text \<open>The five assignments to the front matter, in the order of the source.\<close>

definition sync_frontmatter ::
  "(pyval \<times> pyval) list \<Rightarrow> int \<Rightarrow> string \<Rightarrow> string \<Rightarrow> string \<Rightarrow> (pyval \<times> pyval) list" where
  "sync_frontmatter fm n issue_url synced_at updated =
     dict_set (dict_set (dict_set (dict_set (dict_set fm
       ''github_issue'' (PInt n))
       ''github_url'' (PStr issue_url))
       ''synced_at'' (PStr synced_at))
       ''sync_status'' (PStr ''created''))
       ''updated'' (PStr updated)"

text \<open>
  \<open>update_task_with_issue\<close>. The front matter is changed in place, so the caller's task
  carries the new entries afterwards: the task is returned with the state. Nothing is
  changed when \<open>int\<close> raises; the entries stay when the write raises.
\<close>

definition update_task_with_issue :: "'w env \<Rightarrow> task \<Rightarrow> issue \<Rightarrow> 'w state \<Rightarrow> task \<times> 'w state" where
  "update_task_with_issue env task issue_result st =
     (case py_int (number issue_result) of
        Inl e \<Rightarrow> (task, print (''Error updating task file: '' @ exn_str e) st)
      | Inr n \<Rightarrow>
          (case get_current_iso_datetime env (world st) of
             (synced_at, w1) \<Rightarrow>
               (case get_current_iso_datetime env w1 of
                  (updated, w2) \<Rightarrow>
                    (let fm = sync_frontmatter (frontmatter task) n (url issue_result) synced_at updated;
                         task' = task\<lparr>frontmatter := fm\<rparr>;
                         new_content = ''---'' @ nl @ yaml_dump env (PDict fm) @ ''---'' @ nl @ nl
                                       @ body task;
                         st' = st\<lparr>world := w2\<rparr>
                     in case write_error st (filepath task) of
                          Some e \<Rightarrow> (task', print (''Error updating task file: '' @ exn_str e) st')
                        | None \<Rightarrow> (task', st'\<lparr>files := (files st)(filepath task := Inr new_content)\<rparr>)))))"

section \<open>Epic Tracking Issue Builder\<close>

text \<open>One line of the checklist, and the whole body: the lines of the template, each ended
  by a line feed.\<close>

definition checklist_line :: "string \<Rightarrow> issue \<Rightarrow> string" where
  "checklist_line epic_name task =
     ''- [ ] #'' @ py_str (number task) @ '': ''
     @ py_replace (''['' @ epic_name @ ''] '') [] (issue_title task)"

definition epic_body :: "string \<Rightarrow> issue list \<Rightarrow> string" where
  "epic_body epic_name tasks =
     concat (map (\<lambda>l. l @ nl)
       [''# Epic: '' @ epic_name,
        [],
        ''This is the tracking issue for the '' @ [CHR 0x22] @ epic_name @ [CHR 0x22] @ '' epic.'',
        [],
        ''## '' @ clipboard @ '' Tasks'',
        [],
        py_join nl (map (checklist_line epic_name) tasks),
        [],
        ''## '' @ bar_chart @ '' Progress'',
        [],
        ''- **Total Tasks**: '' @ dec_nat (length tasks),
        ''- **Completed**: 0'',
        ''- **In Progress**: 0'',
        ''- **Todo**: '' @ dec_nat (length tasks),
        [],
        ''## '' @ label_mark @ '' Labels'',
        [],
        ''- `epic` - This is an epic tracking issue'',
        ''- `oden-epic` - Created by Oden Forge methodology'',
        ''- `'' @ epic_name @ ''` - Epic identifier'',
        [],
        ''---'',
        [],
        ''*Created by Oden Forge Documentation-First Development methodology*''])"

text \<open>
  \<open>create_epic_tracking_issue\<close> returns the issue record, or \<open>{'number': '?', 'url': '?'}\<close>;
  its caller reads \<open>number\<close> and \<open>url\<close> only, and the model returns those two.
\<close>

record issue_ref =
  ref_number :: pyval
  ref_url :: string

definition create_epic_tracking_issue ::
  "'w env \<Rightarrow> string \<Rightarrow> issue list \<Rightarrow> string \<Rightarrow> 'w \<Rightarrow> issue_ref \<times> 'w" where
  "create_epic_tracking_issue env epic_name tasks repo w =
     (case create_github_issue env
             (Direct (''[EPIC] '' @ epic_name) (epic_body epic_name tasks) [''epic'', ''oden-epic'', epic_name])
             repo w of
        (Success i, w') \<Rightarrow> (\<lparr>ref_number = number i, ref_url = url i\<rparr>, w')
      | (Failure e, w') \<Rightarrow> (\<lparr>ref_number = PStr ''?'', ref_url = ''?''\<rparr>, w'))"

section \<open>Sync Orchestrator\<close>

text \<open>The tool's response: its text, and the error flag (absent from the dictionary when
  the response is no error).\<close>

record response =
  content_text :: string
  isError :: bool

text \<open>
  The body of the loop of \<open>sync_epic_to_github\<close> over the tasks found, on the issues
  created so far and the state, and the loop.
\<close>

definition sync_task :: "'w env \<Rightarrow> string \<Rightarrow> task \<Rightarrow> issue list \<times> 'w state \<Rightarrow> issue list \<times> 'w state" where
  "sync_task env repo task acc =
     (case acc of
        (created_issues, st) \<Rightarrow>
          (case create_github_issue env (FromDocument task) repo (world st) of
             (Success issue_result, w') \<Rightarrow>
               (created_issues @ [issue_result],
                snd (update_task_with_issue env task issue_result (st\<lparr>world := w'\<rparr>)))
           | (Failure e, w') \<Rightarrow> (created_issues, st\<lparr>world := w'\<rparr>)))"

fun sync_tasks :: "'w env \<Rightarrow> string \<Rightarrow> task list \<Rightarrow> issue list \<times> 'w state \<Rightarrow> issue list \<times> 'w state" where
  "sync_tasks env repo [] acc = acc"
| "sync_tasks env repo (task # tasks) acc = sync_tasks env repo tasks (sync_task env repo task acc)"

definition summary :: "string \<Rightarrow> issue_ref \<Rightarrow> issue list \<Rightarrow> string \<Rightarrow> string" where
  "summary epic_name epic_issue created_issues repo =
     py_join nl
       [check_mark @ '' Epic '' @ [CHR 0x27] @ epic_name @ [CHR 0x27] @ '' synced to GitHub'',
        [],
        bar_chart @ '' Results:'',
        ''- Epic tracking issue: #'' @ py_str (ref_number epic_issue),
        ''- Task issues created: '' @ dec_nat (length created_issues),
        ''- Repository: '' @ repo,
        [],
        clipboard @ '' Issues Created:'',
        py_join nl (map (\<lambda>i. ''- #'' @ py_str (number i) @ '': '' @ issue_title i) created_issues),
        [],
        link_mark @ '' Epic Issue: '' @ ref_url epic_issue,
        [],
        ''Next: Use /oden:work '' @ epic_name @ '' to start development'']"

definition sync_epic_to_github :: "'w env \<Rightarrow> string \<Rightarrow> 'w state \<Rightarrow> response \<times> 'w state" where
  "sync_epic_to_github env epic_name st =
     (case run_command env [PStr ''gh'', PStr ''auth'', PStr ''status''] (world st) of
        (result, w1) \<Rightarrow>
          if returncode result \<noteq> 0 then
            (\<lparr>content_text = cross_mark @ '' GitHub CLI not authenticated. Run: gh auth login'',
              isError = True\<rparr>, st\<lparr>world := w1\<rparr>)
          else
            (case get_repository_info env w1 of
               (RepoError msg, w2) \<Rightarrow> (\<lparr>content_text = msg, isError = True\<rparr>, st\<lparr>world := w2\<rparr>)
             | (RepoFound repo remote_url, w2) \<Rightarrow>
                 (case find_epic_tasks env epic_name (st\<lparr>world := w2\<rparr>) of
                    (Inl e, st3) \<Rightarrow>
                      (\<lparr>content_text = cross_mark @ '' Error syncing to GitHub: '' @ exn_str e,
                        isError = True\<rparr>, st3)
                  | (Inr tasks, st3) \<Rightarrow>
                      if tasks = [] then
                        (\<lparr>content_text = ''No tasks found for epic '' @ [CHR 0x27] @ epic_name @ [CHR 0x27]
                                          @ ''. Run /oden:tasks '' @ epic_name @ '' first.'',
                          isError = False\<rparr>, st3)
                      else
                        (case sync_tasks env repo tasks ([], st3) of
                           (created_issues, st4) \<Rightarrow>
                             (case create_epic_tracking_issue env epic_name created_issues repo (world st4) of
                                (epic_issue, w5) \<Rightarrow>
                                  (\<lparr>content_text = summary epic_name epic_issue created_issues repo,
                                    isError = False\<rparr>, st4\<lparr>world := w5\<rparr>))))))"

section \<open>A scripted environment\<close>

text \<open>
  For running the model on concrete inputs. The world is the list of the outcomes of the
  processes still to be started, the clock stands still, the temporary file has one name,
  and the YAML library is a table of the texts and values it is asked about.
\<close>

definition table_load :: "(string \<times> pyval) list \<Rightarrow> string \<Rightarrow> exn + pyval" where
  "table_load tab s =
     (case map_of tab s of Some v \<Rightarrow> Inr v | None \<Rightarrow> Inl (YAMLError ''could not parse the text''))"

definition table_dump :: "(pyval \<times> string) list \<Rightarrow> pyval \<Rightarrow> string" where
  "table_dump tab v = (case map_of tab v of Some s \<Rightarrow> s | None \<Rightarrow> ''{}'' @ nl)"

definition scripted_env :: "(string \<times> pyval) list \<Rightarrow> (pyval \<times> string) list \<Rightarrow> (proc list) env" where
  "scripted_env loads dumps =
     \<lparr>project_root = ''/repo'',
      subprocess_run = (\<lambda>args w. case w of [] \<Rightarrow> (LaunchError ''no process left'', []) | p # ps \<Rightarrow> (p, ps)),
      named_temporary_file = (\<lambda>b w. (''/tmp/tmp1.md'', w)),
      os_unlink = (\<lambda>p w. w),
      utcnow = (\<lambda>w. (\<lparr>year = 2024, month = 5, day = 1, hour = 12, minute = 0, second = 0\<rparr>, w)),
      yaml_safe_load = table_load loads,
      yaml_dump = table_dump dumps\<rparr>"

text \<open>Two task documents of the epic \<open>auth\<close>, a file with no front matter, and their
  directory.\<close>

definition login_front_text :: string where
  "login_front_text = nl @ ''name: Login form'' @ nl @ ''epic: auth'' @ nl @ ''labels: [backend, ui]'' @ nl"

definition login_doc :: string where
  "login_doc = ''---'' @ login_front_text @ ''---'' @ nl @ nl @ ''# Login'' @ nl @ nl @ ''Build it.'' @ nl"

definition login_front :: "(pyval \<times> pyval) list" where
  "login_front =
     [(PStr ''name'', PStr ''Login form''), (PStr ''epic'', PStr ''auth''),
      (PStr ''labels'', PList [PStr ''backend'', PStr ''ui''])]"

definition logout_front_text :: string where
  "logout_front_text = nl @ ''name: Logout'' @ nl @ ''epic: auth'' @ nl"

definition logout_doc :: string where
  "logout_doc = ''---'' @ logout_front_text @ ''---'' @ nl @ ''End the session.'' @ nl"

definition logout_front :: "(pyval \<times> pyval) list" where
  "logout_front = [(PStr ''name'', PStr ''Logout''), (PStr ''epic'', PStr ''auth'')]"


text \<open>The front matter after a sync that created the issue with the given number, and
  the text the YAML library writes for it.\<close>

definition synced_front :: "(pyval \<times> pyval) list \<Rightarrow> int \<Rightarrow> (pyval \<times> pyval) list" where
  "synced_front fm n =
     fm @ [(PStr ''github_issue'', PInt n),
           (PStr ''github_url'', PStr (''https://github.com/acme/widgets/issues/'' @ dec_int n)),
           (PStr ''synced_at'', PStr ''2024-05-01T12:00:00Z''),
           (PStr ''sync_status'', PStr ''created''),
           (PStr ''updated'', PStr ''2024-05-01T12:00:00Z'')]"

definition login_dumped :: string where
  "login_dumped =
     ''epic: auth'' @ nl @ ''github_issue: 7'' @ nl
     @ ''github_url: https://github.com/acme/widgets/issues/7'' @ nl
     @ ''labels:'' @ nl @ ''- backend'' @ nl @ ''- ui'' @ nl @ ''name: Login form'' @ nl
     @ ''sync_status: created'' @ nl
     @ ''synced_at: '' @ [CHR 0x27] @ ''2024-05-01T12:00:00Z'' @ [CHR 0x27] @ nl
     @ ''updated: '' @ [CHR 0x27] @ ''2024-05-01T12:00:00Z'' @ [CHR 0x27] @ nl"

definition logout_dumped :: string where
  "logout_dumped =
     ''epic: auth'' @ nl @ ''github_issue: 8'' @ nl
     @ ''github_url: https://github.com/acme/widgets/issues/8'' @ nl
     @ ''name: Logout'' @ nl @ ''sync_status: created'' @ nl
     @ ''synced_at: '' @ [CHR 0x27] @ ''2024-05-01T12:00:00Z'' @ [CHR 0x27] @ nl
     @ ''updated: '' @ [CHR 0x27] @ ''2024-05-01T12:00:00Z'' @ [CHR 0x27] @ nl"

text \<open>The first document after the sync that created issue 7, and its front matter as the
  YAML library reads it from there: the keys in the order of the text.\<close>

definition login_doc_synced :: string where
  "login_doc_synced = ''---'' @ nl @ login_dumped @ ''---'' @ nl @ nl @ ''# Login'' @ nl @ nl @ ''Build it.''"

definition login_front_reread :: "(pyval \<times> pyval) list" where
  "login_front_reread =
     [(PStr ''epic'', PStr ''auth''),
      (PStr ''github_issue'', PInt 7),
      (PStr ''github_url'', PStr ''https://github.com/acme/widgets/issues/7''),
      (PStr ''labels'', PList [PStr ''backend'', PStr ''ui'']),
      (PStr ''name'', PStr ''Login form''),
      (PStr ''sync_status'', PStr ''created''),
      (PStr ''synced_at'', PStr ''2024-05-01T12:00:00Z''),
      (PStr ''updated'', PStr ''2024-05-01T12:00:00Z'')]"

definition demo_loads :: "(string \<times> pyval) list" where
  "demo_loads =
     [(login_front_text, PDict login_front), (logout_front_text, PDict logout_front),
      (nl @ login_dumped, PDict login_front_reread)]"

definition demo_dumps :: "(pyval \<times> string) list" where
  "demo_dumps =
     [(PDict (synced_front login_front 7), login_dumped),
      (PDict (synced_front logout_front 8), logout_dumped)]"

definition demo_env :: "(proc list) env" where
  "demo_env = scripted_env demo_loads demo_dumps"

definition demo_dir :: string where
  "demo_dir = ''/repo/docs/development/current/tasks''"

definition demo_files :: "string \<Rightarrow> exn + string" where
  "demo_files p =
     (if p = demo_dir @ ''/auth-task-1.md'' then Inr login_doc
      else if p = demo_dir @ ''/auth-task-2.md'' then Inr logout_doc
      else if p = demo_dir @ ''/auth-task-3.md'' then Inr (''# Notes'' @ nl)
      else Inl (OSError ''[Errno 2] No such file or directory''))"

definition demo_state :: "dir \<Rightarrow> proc list \<Rightarrow> (proc list) state" where
  "demo_state d script =
     \<lparr>world = script, tasks_dir = d, files = demo_files, write_error = (\<lambda>p. None), printed = []\<rparr>"

text \<open>Outcomes of processes: a remote URL or an issue URL printed, and a failure.\<close>

definition prints :: "string \<Rightarrow> proc" where
  "prints out = Completed 0 (out @ nl) []"

definition fails :: "string \<Rightarrow> proc" where
  "fails err = Completed 1 [] err"

text \<open>The two documents as \<open>read_task_file\<close> returns them.\<close>

definition login_task :: task where
  "login_task =
     \<lparr>filepath = demo_dir @ ''/auth-task-1.md'', filename = ''auth-task-1.md'',
      frontmatter = login_front, body = ''# Login'' @ nl @ nl @ ''Build it.'',
      title = PStr ''Login form'', epic = PStr ''auth'', work_stream = PNone,
      labels = PList [PStr ''backend'', PStr ''ui'']\<rparr>"

definition logout_task :: task where
  "logout_task =
     \<lparr>filepath = demo_dir @ ''/auth-task-2.md'', filename = ''auth-task-2.md'',
      frontmatter = logout_front, body = ''End the session.'',
      title = PStr ''Logout'', epic = PStr ''auth'', work_stream = PNone,
      labels = PList []\<rparr>"

text \<open>The issue record of the first document, as Issue Creation returns it when \<open>gh\<close>
  prints the URL of issue 7.\<close>

definition login_issue :: issue where
  "login_issue =
     \<lparr>number = PStr ''7'', url = ''https://github.com/acme/widgets/issues/7'',
      issue_title = ''[auth] Login form''\<rparr>"




text \<open>
  A task of the epic \<open>auth\<close> whose name mentions the epic in brackets, and the record of
  its issue, number 12.
\<close>

definition refresh_task :: task where
  "refresh_task =
     \<lparr>filepath = demo_dir @ ''/auth-task-4.md'', filename = ''auth-task-4.md'',
      frontmatter = [(PStr ''name'', PStr ''Fix [auth] token refresh''), (PStr ''epic'', PStr ''auth'')],
      body = ''Refresh the token.'',
      title = PStr ''Fix [auth] token refresh'', epic = PStr ''auth'', work_stream = PNone,
      labels = PList []\<rparr>"

definition refresh_issue :: issue where
  "refresh_issue =
     \<lparr>number = PStr ''12'', url = ''https://github.com/acme/widgets/issues/12'',
      issue_title = ''[auth] Fix [auth] token refresh''\<rparr>"

section \<open>Notions of the specification\<close>




section \<open>Properties of the text operations\<close>

lemma py_in_iff: "py_in sub s \<longleftrightarrow> (\<exists>p q. s = p @ sub @ q)"
proof (induction s)
  case Nil
  then show ?case by auto
next
  case (Cons c cs)
  show ?case
  proof
    assume "py_in sub (c # cs)"
    then consider "prefix sub (c # cs)" | "py_in sub cs" by auto
    then show "\<exists>p q. c # cs = p @ sub @ q"
    proof cases
      case 1
      then obtain q where "c # cs = sub @ q" by (auto simp: prefix_def)
      then have "c # cs = [] @ sub @ q" by simp
      then show ?thesis by blast
    next
      case 2
      with Cons.IH obtain p q where "cs = p @ sub @ q" by blast
      then have "c # cs = (c # p) @ sub @ q" by simp
      then show ?thesis by blast
    qed
  next
    assume "\<exists>p q. c # cs = p @ sub @ q"
    then obtain p q where pq: "c # cs = p @ sub @ q" by blast
    show "py_in sub (c # cs)"
    proof (cases p)
      case Nil
      with pq have "prefix sub (c # cs)" by (simp add: prefix_def)
      then show ?thesis by simp
    next
      case (Cons a p')
      with pq have "cs = p' @ sub @ q" by simp
      with Cons.IH have "py_in sub cs" by blast
      then show ?thesis by simp
    qed
  qed
qed

text \<open>Text added behind cannot complete an occurrence whose last character it lacks.\<close>

lemma py_in_append_right:
  assumes "sub \<noteq> []" and "last sub \<notin> set ys"
  shows "py_in sub (xs @ ys) = py_in sub xs"
proof
  assume "py_in sub (xs @ ys)"
  then obtain p q where pq: "xs @ ys = p @ sub @ q" by (auto simp: py_in_iff)
  then have "(p @ sub) @ q = xs @ ys" by simp
  then obtain us where "(p @ sub = xs @ us \<and> us @ q = ys) \<or> ((p @ sub) @ us = xs \<and> q = us @ ys)"
    using append_eq_append_conv2[of "p @ sub" q xs ys] by blast
  then show "py_in sub xs"
  proof
    assume a: "p @ sub = xs @ us \<and> us @ q = ys"
    show ?thesis
    proof (cases "us = []")
      case True
      with a have "xs = p @ sub @ []" by simp
      then show ?thesis unfolding py_in_iff by blast
    next
      case False
      from a have "last (p @ sub) = last (xs @ us)" by simp
      with False assms(1) have "last sub = last us" by simp
      with False a have "last sub \<in> set ys" by auto
      with assms(2) show ?thesis by simp
    qed
  next
    assume "(p @ sub) @ us = xs \<and> q = us @ ys"
    then have "xs = p @ sub @ us" by simp
    then show ?thesis unfolding py_in_iff by blast
  qed
next
  assume "py_in sub xs"
  then obtain p q where "xs = p @ sub @ q" by (auto simp: py_in_iff)
  then have "xs @ ys = p @ sub @ (q @ ys)" by simp
  then show "py_in sub (xs @ ys)" unfolding py_in_iff by blast
qed

lemma py_split_absent: "\<not> py_in sep s \<Longrightarrow> py_split sep s = [s]"
  by (induction sep s rule: py_split.induct) auto

lemma py_replace_absent: "\<not> py_in old s \<Longrightarrow> old \<noteq> [] \<Longrightarrow> py_replace old new s = s"
  by (induction old new s rule: py_replace.induct) auto

lemma py_lower_append: "py_lower (a @ b) = py_lower a @ py_lower b"
  by (simp add: py_lower_def)

text \<open>The suffix \<open>.git\<close> overlaps no occurrence of \<open>.git\<close> that starts before it.\<close>

lemma prefix_dotgit_append:
  "xs \<noteq> [] \<Longrightarrow> prefix ''.git'' (xs @ ''.git'') = prefix ''.git'' xs"
proof (cases xs)
  case Nil
  assume "xs \<noteq> []"
  with Nil show ?thesis by simp
next
  case xs: (Cons a as)
  show ?thesis
  proof (cases as)
    case Nil
    with xs show ?thesis by simp
  next
    case as: (Cons b bs)
    show ?thesis
    proof (cases bs)
      case Nil
      with xs as show ?thesis by simp
    next
      case bs: (Cons c cs)
      with xs as show ?thesis by (cases cs) simp_all
    qed
  qed
qed

lemma py_replace_dotgit_suffix:
  "py_replace ''.git'' [] (r @ ''.git'') = py_replace ''.git'' [] r"
proof (induction r rule: length_induct)
  case (1 r)
  show ?case
  proof (cases r)
    case Nil
    then show ?thesis by simp
  next
    case (Cons c cs)
    show ?thesis
    proof (cases "prefix ''.git'' r")
      case True
      then obtain rest where r: "r = ''.git'' @ rest" by (auto simp: prefix_def)
      then have "length rest < length r" by simp
      with 1 have "py_replace ''.git'' [] (rest @ ''.git'') = py_replace ''.git'' [] rest" by blast
      with r show ?thesis by simp
    next
      case False
      with Cons have np: "\<not> prefix ''.git'' (r @ ''.git'')" using prefix_dotgit_append[of r] by simp
      from Cons have "length cs < length r" by simp
      with 1 have ih: "py_replace ''.git'' [] (cs @ ''.git'') = py_replace ''.git'' [] cs" by blast
      from Cons np have "py_replace ''.git'' [] (r @ ''.git'') = c # py_replace ''.git'' [] (cs @ ''.git'')"
        by (simp del: Cons_prefix_Cons)
      moreover from Cons False have "py_replace ''.git'' [] r = c # py_replace ''.git'' [] cs"
        by (simp del: Cons_prefix_Cons)
      ultimately show ?thesis using ih by simp
    qed
  qed
qed

lemmas demo_simps = demo_env_def scripted_env_def demo_state_def demo_files_def demo_dir_def
  login_doc_def login_front_text_def login_front_def logout_doc_def logout_front_text_def
  logout_front_def demo_loads_def demo_dumps_def synced_front_def login_dumped_def
  logout_dumped_def table_load_def table_dump_def nl_def prints_def fails_def login_task_def
  logout_task_def login_doc_synced_def login_front_reread_def login_issue_def

section \<open>Properties of the Repository Resolver\<close>

lemma get_repository_info_resolve:
  assumes "run_command env [PStr ''git'', PStr ''remote'', PStr ''get-url'', PStr ''origin''] w = (result, w')"
    and "returncode result = 0" and "stdout result = Some out"
  shows "get_repository_info env w = (resolve_remote_url (py_strip out), w')"
  using assms by (simp add: get_repository_info_def get_stdout_def)

lemma lower_dotgit: "py_lower (r @ ''.git'') = py_lower r @ ''.git''"
  by (simp add: py_lower_def lower_char_def)

lemma marker_suffix: "is_template_url (u @ ''.git'') = is_template_url u"
  by (simp add: is_template_url_def lower_dotgit py_in_append_right)

lemma marker_ssh: "is_template_url (''git@github.com:'' @ r) = is_template_url r"
  by (simp add: is_template_url_def py_lower_def lower_char_def)

lemma marker_https: "is_template_url (''https://github.com/'' @ r) = is_template_url r"
  by (simp add: is_template_url_def py_lower_def lower_char_def)

lemma resolve_ssh:
  assumes "\<not> py_in '':'' r"
  shows "repo_of (resolve_remote_url (''git@github.com:'' @ r)) =
         (if is_template_url r then None else Some (py_replace ''.git'' [] r))"
proof -
  have "py_split '':'' (''git@github.com:'' @ r) = [''git@github.com'', r]"
    using assms by (simp add: py_split_absent)
  then show ?thesis
    using marker_ssh[of r] by (simp add: resolve_remote_url_def py_index_def)
qed

lemma resolve_https:
  assumes "\<not> py_in ''github.com/'' r"
  shows "repo_of (resolve_remote_url (''https://github.com/'' @ r)) =
         (if is_template_url r then None else Some (py_replace ''.git'' [] r))"
proof -
  have "py_split ''github.com/'' (''https://github.com/'' @ r) = [''https://'', r]"
    using assms by (simp add: py_split_absent)
  then show ?thesis
    using marker_https[of r] by (simp add: resolve_remote_url_def py_index_def)
qed

text \<open>
  Claim C3. Let \<open>r\<close> be the \<open>owner/name\<close> part of a remote URL of the tracker's host, with
  no colon in it and no \<open>github.com/\<close>. The SSH form and the HTTPS form of the URL, each
  with and without the suffix \<open>.git\<close>, resolve alike: to nothing when \<open>r\<close> carries a
  template marker, and otherwise all four to the same repository text, \<open>r\<close> with every
  \<open>.git\<close> in it removed: \<open>r\<close> itself when it holds no \<open>.git\<close>.
\<close>

theorem resolver_suffix_independent:
  assumes "\<not> py_in '':'' r" and "\<not> py_in ''github.com/'' r"
  shows "repo_of (resolve_remote_url (''git@github.com:'' @ r)) =
           (if is_template_url r then None else Some (py_replace ''.git'' [] r))
       \<and> repo_of (resolve_remote_url (''git@github.com:'' @ r @ ''.git'')) =
           (if is_template_url r then None else Some (py_replace ''.git'' [] r))
       \<and> repo_of (resolve_remote_url (''https://github.com/'' @ r)) =
           (if is_template_url r then None else Some (py_replace ''.git'' [] r))
       \<and> repo_of (resolve_remote_url (''https://github.com/'' @ r @ ''.git'')) =
           (if is_template_url r then None else Some (py_replace ''.git'' [] r))
       \<and> (\<not> py_in ''.git'' r \<longrightarrow> py_replace ''.git'' [] r = r)"
proof -
  have a: "\<not> py_in '':'' (r @ ''.git'')"
    using assms(1) by (simp add: py_in_append_right)
  have b: "\<not> py_in ''github.com/'' (r @ ''.git'')"
    using assms(2) by (simp add: py_in_append_right)
  show ?thesis
    using resolve_ssh[OF assms(1)] resolve_ssh[OF a] resolve_https[OF assms(2)] resolve_https[OF b]
    by (simp add: marker_suffix py_replace_dotgit_suffix py_replace_absent)
qed

theorem resolver_suffix_independent_witness:
  "repo_of (resolve_remote_url ''git@github.com:acme/widgets'') = Some ''acme/widgets''
 \<and> repo_of (resolve_remote_url ''git@github.com:acme/widgets.git'') = Some ''acme/widgets''
 \<and> repo_of (resolve_remote_url ''https://github.com/acme/widgets'') = Some ''acme/widgets''
 \<and> repo_of (resolve_remote_url ''https://github.com/acme/widgets.git'') = Some ''acme/widgets''"
proof -
  have a: "\<not> py_in '':'' ''acme/widgets''" by simp
  have b: "\<not> py_in ''github.com/'' ''acme/widgets''" by simp
  have c: "\<not> is_template_url ''acme/widgets''"
    by (simp add: is_template_url_def py_lower_def lower_char_def)
  have d: "py_replace ''.git'' [] ''acme/widgets'' = ''acme/widgets''" by simp
  show ?thesis
    using resolver_suffix_independent[OF a b] c d by simp
qed

text \<open>
  Claim C7. When \<open>git\<close> prints a remote URL that holds \<open>template\<close> or \<open>example\<close>, in any
  mix of upper and lower case and at any place (the URL is \<open>pre @ mid @ post\<close>, and \<open>mid\<close>
  in lower case is one of the two words), \<open>get_repository_info\<close> returns the
  template-repository failure and no repository.
\<close>

theorem template_url_rejected:
  assumes "run_command env [PStr ''git'', PStr ''remote'', PStr ''get-url'', PStr ''origin''] w = (result, w')"
    and "returncode result = 0" and "stdout result = Some out"
    and "py_strip out = pre @ mid @ post"
    and "py_lower mid = ''template'' \<or> py_lower mid = ''example''"
  shows "get_repository_info env w =
           (RepoError (cross_mark @
              '' Cannot sync to template repository. Please fork or create your own repository first.''), w')
       \<and> repo_of (fst (get_repository_info env w)) = None"
proof -
  have "py_lower (py_strip out) = py_lower pre @ py_lower mid @ py_lower post"
    using assms(4) by (simp add: py_lower_append)
  with assms(5) have "is_template_url (py_strip out)"
    unfolding is_template_url_def py_in_iff by metis
  then show ?thesis
    using assms(1-3) by (simp add: get_repository_info_def get_stdout_def resolve_remote_url_def)
qed

theorem template_url_rejected_witness:
  "get_repository_info demo_env [prints ''https://github.com/acme/Oden-TEMPLATE.git''] =
     (RepoError (cross_mark @
        '' Cannot sync to template repository. Please fork or create your own repository first.''), [])
 \<and> repo_of (fst (get_repository_info demo_env [prints ''https://github.com/acme/Oden-TEMPLATE.git''])) = None"
proof -
  have run: "run_command demo_env [PStr ''git'', PStr ''remote'', PStr ''get-url'', PStr ''origin'']
               [prints ''https://github.com/acme/Oden-TEMPLATE.git''] =
             (\<lparr>returncode = 0, stdout = Some (''https://github.com/acme/Oden-TEMPLATE.git'' @ nl),
               stderr = []\<rparr>, [])"
    by (simp add: run_command_def demo_simps)
  have url: "py_strip (''https://github.com/acme/Oden-TEMPLATE.git'' @ nl) =
             ''https://github.com/acme/Oden-'' @ ''TEMPLATE'' @ ''.git''"
    by (simp add: py_strip_def is_space_def nl_def)
  have low: "py_lower ''TEMPLATE'' = ''template'' \<or> py_lower ''TEMPLATE'' = ''example''"
    by (simp add: py_lower_def lower_char_def char_of_eq_iff)
  show ?thesis
    by (rule template_url_rejected[OF run _ _ url low]) simp_all
qed

section \<open>Properties of Issue Creation\<close>

text \<open>A process that ended with status zero has printed its output: the result has it.\<close>

lemma run_command_zero_has_stdout:
  assumes "run_command env cmd w = (result, w')" and "returncode result = 0"
  shows "\<exists>out. stdout result = Some out"
  using assms by (auto simp: run_command_def split: sum.splits prod.splits proc.splits)


text \<open>
  Claim C2, as amended. When the issue's fields are composed and \<open>gh\<close> ends with status
  zero, the record returned carries as its number the text of the last path segment of
  the printed URL (the URL without the white space around it), not an integer; with it
  the URL and the title. The text becomes an integer only in \<open>update_task_with_issue\<close>.
\<close>

theorem issue_number_is_url_segment:
  assumes "issue_fields data = Inr (t, b, ls)"
    and "named_temporary_file env b w = (temp_path, w1)"
    and "run_command env (issue_command repo t temp_path ls) w1 = (result, w2)"
    and "returncode result = 0" and "stdout result = Some out"
  shows "create_github_issue env data repo w =
           (Success \<lparr>number = PStr (last (py_split ''/'' (py_strip out))), url = py_strip out,
                     issue_title = t\<rparr>, os_unlink env temp_path w2)"
  using assms by (simp add: create_github_issue_def get_stdout_def Let_def)

lemma login_issue_fields:
  "issue_fields (FromDocument login_task) =
     Inr (''[auth] Login form'', ''# Login'' @ nl @ nl @ ''Build it.'',
          [PStr ''oden-epic'', PStr ''auth'', PStr ''backend'', PStr ''ui''])"
  by (simp add: demo_simps)

lemma login_issue_run:
  "run_command demo_env
     (issue_command ''acme/widgets'' ''[auth] Login form'' ''/tmp/tmp1.md''
        [PStr ''oden-epic'', PStr ''auth'', PStr ''backend'', PStr ''ui''])
     [prints ''https://github.com/acme/widgets/issues/7''] =
   (\<lparr>returncode = 0, stdout = Some (''https://github.com/acme/widgets/issues/7'' @ nl), stderr = []\<rparr>, [])"
  by (simp add: run_command_def issue_command_def demo_simps)

lemma demo_tmp: "named_temporary_file demo_env b w = (''/tmp/tmp1.md'', w)"
  by (simp add: demo_env_def scripted_env_def)

lemma demo_unlink: "os_unlink demo_env p w = w"
  by (simp add: demo_env_def scripted_env_def)

theorem issue_number_is_url_segment_witness:
  "create_github_issue demo_env (FromDocument login_task) ''acme/widgets''
     [prints ''https://github.com/acme/widgets/issues/7''] =
   (Success \<lparr>number = PStr ''7'', url = ''https://github.com/acme/widgets/issues/7'',
             issue_title = ''[auth] Login form''\<rparr>, [])"
proof -
  have "create_github_issue demo_env (FromDocument login_task) ''acme/widgets''
          [prints ''https://github.com/acme/widgets/issues/7''] =
        (Success \<lparr>number = PStr (last (py_split ''/'' (py_strip (''https://github.com/acme/widgets/issues/7'' @ nl)))),
                  url = py_strip (''https://github.com/acme/widgets/issues/7'' @ nl),
                  issue_title = ''[auth] Login form''\<rparr>, os_unlink demo_env ''/tmp/tmp1.md'' [])"
    by (rule issue_number_is_url_segment[OF login_issue_fields demo_tmp login_issue_run]) simp_all
  then show ?thesis
    by (simp add: py_strip_def is_space_def nl_def demo_unlink)
qed

text \<open>
  Claim C2 as stated fails: the number of the record is text. \<open>gh\<close> prints the URL of
  issue 7, and the record carries \<open>'7'\<close>, which is not the integer 7.
\<close>

theorem issue_number_is_text_counterexample:
  "fst (create_github_issue demo_env (FromDocument login_task) ''acme/widgets''
          [prints ''https://github.com/acme/widgets/issues/7'']) =
     Success \<lparr>number = PStr ''7'', url = ''https://github.com/acme/widgets/issues/7'',
              issue_title = ''[auth] Login form''\<rparr>
 \<and> PStr ''7'' \<noteq> PInt 7"
  by (simp add: create_github_issue_def get_stdout_def Let_def login_issue_fields demo_tmp
      login_issue_run demo_unlink py_strip_def is_space_def nl_def del: issue_fields.simps)

text \<open>
  Claim C4. For a task document that \<open>read_task_file\<close> has read, with \<open>epic: X\<close> and
  \<open>labels: ls\<close> in its front matter (\<open>ls\<close> a list, such as \<open>[a, b]\<close>), Issue Creation
  composes the label list \<open>oden-epic\<close>, \<open>X\<close>, the labels of \<open>ls\<close> in their order, and the
  work-stream tag last when the document has one (a value that counts as true: not
  empty, not null). Nothing is removed from the list, so duplicates stay.
\<close>

theorem labels_composed:
  assumes "read_task_file env path st = (Some task, st')"
    and "map_of (frontmatter task) (PStr ''epic'') = Some X"
    and "map_of (frontmatter task) (PStr ''labels'') = Some (PList ls)"
  shows "issue_fields (FromDocument task) =
           Inr (''['' @ py_str X @ ''] '' @ py_str (title task), body task,
                [PStr ''oden-epic'', X] @ ls
                @ (if truthy (work_stream task) then [work_stream task] else []))"
proof -
  from assms(1) have "epic task = dict_get (frontmatter task) ''epic'' PNone
      \<and> labels task = dict_get (frontmatter task) ''labels'' (PList [])"
    by (auto simp: read_task_file_def Let_def split: sum.splits if_splits pyval.splits)
  with assms(2,3) have "epic task = X" "labels task = PList ls"
    by (simp_all add: dict_get_def)
  then show ?thesis by simp
qed

lemma read_login_task:
  "read_task_file demo_env (demo_dir @ ''/auth-task-1.md'') (demo_state d script) =
     (Some login_task, demo_state d script)"
  by (simp add: read_task_file_def demo_simps basename_def py_strip_def is_space_def dict_get_def
      Let_def numeral_2_eq_2)

theorem labels_composed_witness:
  "issue_fields (FromDocument login_task) =
     Inr (''[auth] Login form'', ''# Login'' @ nl @ nl @ ''Build it.'',
          [PStr ''oden-epic'', PStr ''auth'', PStr ''backend'', PStr ''ui''])"
proof -
  have e: "map_of (frontmatter login_task) (PStr ''epic'') = Some (PStr ''auth'')"
    by (simp add: demo_simps)
  have l: "map_of (frontmatter login_task) (PStr ''labels'') = Some (PList [PStr ''backend'', PStr ''ui''])"
    by (simp add: demo_simps)
  show ?thesis
    using labels_composed[OF read_login_task e l] by (simp add: demo_simps)
qed

section \<open>Properties of Task Discovery\<close>

lemma read_task_file_files: "files (snd (read_task_file env path st)) = files st"
  by (auto simp: read_task_file_def print_def Let_def split: sum.splits pyval.splits)

lemma read_task_file_unmarked:
  assumes "files st path = Inr content"
    and "\<not> prefix ''---'' content \<or> length (py_splitn ''---'' 2 content) < 3"
  shows "read_task_file env path st = (None, st)"
  using assms by (auto simp: read_task_file_def Let_def)

text \<open>
  Claim C8. When the tasks directory does not exist, \<open>find_epic_tasks\<close> returns the empty
  list and leaves the state as it is, whatever the epic's name. \<open>sync_epic_to_github\<close>,
  once the authentication check and the Repository Resolver have passed (only then does
  it look for tasks), answers with the text that no tasks were found and no error flag.
\<close>

theorem missing_tasks_dir_is_no_error:
  assumes "tasks_dir st = NoDir"
    and "run_command env [PStr ''gh'', PStr ''auth'', PStr ''status''] (world st) = (result, w1)"
    and "returncode result = 0"
    and "get_repository_info env w1 = (RepoFound repo remote_url, w2)"
  shows "find_epic_tasks env epic_name st = (Inr [], st)
       \<and> sync_epic_to_github env epic_name st =
           (\<lparr>content_text = ''No tasks found for epic '' @ [CHR 0x27] @ epic_name @ [CHR 0x27]
                             @ ''. Run /oden:tasks '' @ epic_name @ '' first.'',
             isError = False\<rparr>, st\<lparr>world := w2\<rparr>)"
  using assms by (simp add: find_epic_tasks_def sync_epic_to_github_def Let_def)

theorem missing_tasks_dir_is_no_error_witness:
  "find_epic_tasks demo_env ''auth'' (demo_state NoDir [prints ''Logged in'', prints ''git@github.com:acme/widgets.git'']) =
     (Inr [], demo_state NoDir [prints ''Logged in'', prints ''git@github.com:acme/widgets.git''])
 \<and> fst (sync_epic_to_github demo_env ''auth''
           (demo_state NoDir [prints ''Logged in'', prints ''git@github.com:acme/widgets.git''])) =
     \<lparr>content_text = ''No tasks found for epic '' @ [CHR 0x27] @ ''auth'' @ [CHR 0x27]
                       @ ''. Run /oden:tasks auth first.'',
       isError = False\<rparr>"
proof -
  let ?st = "demo_state NoDir [prints ''Logged in'', prints ''git@github.com:acme/widgets.git'']"
  have d: "tasks_dir ?st = NoDir" by (simp add: demo_state_def)
  have a: "run_command demo_env [PStr ''gh'', PStr ''auth'', PStr ''status''] (world ?st) =
             (\<lparr>returncode = 0, stdout = Some (''Logged in'' @ nl), stderr = []\<rparr>,
              [prints ''git@github.com:acme/widgets.git''])"
    by (simp add: run_command_def demo_simps)
  have r: "get_repository_info demo_env [prints ''git@github.com:acme/widgets.git''] =
             (RepoFound ''acme/widgets'' ''git@github.com:acme/widgets.git'', [])"
    by (simp add: get_repository_info_def get_stdout_def run_command_def resolve_remote_url_def
        is_template_url_def py_lower_def lower_char_def py_index_def py_strip_def is_space_def demo_simps)
  show ?thesis
    using missing_tasks_dir_is_no_error[OF d a _ r, of "''auth''"] by simp
qed

text \<open>
  Claim C9. A file that can be read and whose text does not start with the marker
  \<open>---\<close>, or has no second marker (splitting at the first two markers gives fewer than
  three parts), makes \<open>read_task_file\<close> return nothing and print nothing: the state is
  unchanged. In the scan of the directory the file counts for nothing: with its name in
  the listing or without it, the scan returns the same tasks and the same state.
\<close>

theorem unmarked_file_skipped_silently:
  assumes "files st (path_join dir_path name) = Inr content"
    and "\<not> prefix ''---'' content \<or> length (py_splitn ''---'' 2 content) < 3"
  shows "read_task_file env (path_join dir_path name) st = (None, st)
       \<and> scan_tasks env epic_name dir_path (before @ name # after) tasks st =
         scan_tasks env epic_name dir_path (before @ after) tasks st"
proof
  show "read_task_file env (path_join dir_path name) st = (None, st)"
    using assms by (rule read_task_file_unmarked)
  show "scan_tasks env epic_name dir_path (before @ name # after) tasks st =
         scan_tasks env epic_name dir_path (before @ after) tasks st"
    using assms(1)
  proof (induction before arbitrary: tasks st)
    case Nil
    then have "read_task_file env (path_join dir_path name) st = (None, st)"
      using assms(2) by (rule read_task_file_unmarked)
    then show ?case by simp
  next
    case (Cons b before)
    show ?case
    proof (cases "prefix (epic_name @ ''-task-'') b \<and> suffix ''.md'' b")
      case False
      then show ?thesis using Cons by auto
    next
      case True
      obtain r st' where r: "read_task_file env (path_join dir_path b) st = (r, st')"
        by (cases "read_task_file env (path_join dir_path b) st")
      then have "files st' = files st"
        using read_task_file_files[of env "path_join dir_path b" st] by simp
      with Cons.prems have "files st' (path_join dir_path name) = Inr content" by simp
      from Cons.IH[OF this] True r show ?thesis by (cases r) auto
    qed
  qed
qed

lemma read_logout_task:
  "read_task_file demo_env (demo_dir @ ''/auth-task-2.md'') (demo_state d script) =
     (Some logout_task, demo_state d script)"
  by (simp add: read_task_file_def demo_simps basename_def py_strip_def is_space_def dict_get_def
      Let_def numeral_2_eq_2)

lemma demo_scan:
  "scan_tasks demo_env ''auth'' demo_dir [''auth-task-1.md'', ''auth-task-2.md''] [] (demo_state d script) =
     ([login_task, logout_task], demo_state d script)"
proof -
  have "path_join demo_dir ''auth-task-1.md'' = demo_dir @ ''/auth-task-1.md''"
       "path_join demo_dir ''auth-task-2.md'' = demo_dir @ ''/auth-task-2.md''"
    by (simp_all add: path_join_def demo_dir_def suffix_to_prefix)
  then show ?thesis
    by (simp add: read_login_task read_logout_task suffix_to_prefix)
qed

theorem unmarked_file_skipped_silently_witness:
  "read_task_file demo_env (path_join demo_dir ''auth-task-3.md'') (demo_state NoDir []) =
     (None, demo_state NoDir [])
 \<and> scan_tasks demo_env ''auth'' demo_dir [''auth-task-1.md'', ''auth-task-3.md'', ''auth-task-2.md''] []
      (demo_state NoDir []) =
     ([login_task, logout_task], demo_state NoDir [])"
proof -
  have f: "files (demo_state NoDir []) (path_join demo_dir ''auth-task-3.md'') = Inr (''# Notes'' @ nl)"
    by (simp add: path_join_def demo_simps suffix_to_prefix)
  have m: "\<not> prefix ''---'' (''# Notes'' @ nl) \<or> length (py_splitn ''---'' 2 (''# Notes'' @ nl)) < 3"
    by simp
  note skipped = unmarked_file_skipped_silently[OF f m, of demo_env "''auth''" "[''auth-task-1.md'']"
      "[''auth-task-2.md'']" "[]"]
  from skipped have 1: "read_task_file demo_env (path_join demo_dir ''auth-task-3.md'') (demo_state NoDir []) =
      (None, demo_state NoDir [])"
    by (rule conjunct1)
  from skipped have "scan_tasks demo_env ''auth'' demo_dir
      ([''auth-task-1.md''] @ ''auth-task-3.md'' # [''auth-task-2.md'']) [] (demo_state NoDir []) =
    scan_tasks demo_env ''auth'' demo_dir ([''auth-task-1.md''] @ [''auth-task-2.md'']) []
      (demo_state NoDir [])"
    by (rule conjunct2)
  then have 2: "scan_tasks demo_env ''auth'' demo_dir
      [''auth-task-1.md'', ''auth-task-3.md'', ''auth-task-2.md''] [] (demo_state NoDir []) =
    ([login_task, logout_task], demo_state NoDir [])"
    by (simp only: append_Cons append_Nil demo_scan)
  from 1 2 show ?thesis by (rule conjI)
qed

section \<open>Properties of Task Document Update\<close>



section \<open>The rewrite of a task document\<close>















lemma char_is_char_of: "(c = char_of n) = (take_bit 8 n = of_char c)"
  using char_of_eq_iff[of n c] by auto







section \<open>Properties of the Sync Orchestrator\<close>



















section \<open>Properties of the Epic Tracking Issue Builder\<close>

text \<open>The checklist is one line for each record, in the order of the records.\<close>

lemma checklist_lines:
  "py_join nl (map (checklist_line epic_name) (t # ts)) =
     checklist_line epic_name t @ concat (map (\<lambda>u. nl @ checklist_line epic_name u) ts)"
  by (induction ts arbitrary: t) simp_all

text \<open>
  Claim C5, at an input where the code departs from it. The task \<open>Fix [auth] token
  refresh\<close> of the epic \<open>auth\<close> gets the issue title \<open>[auth] Fix [auth] token refresh\<close>.
  Its line in the checklist of the tracking issue (the seventh line of the body) shows
  \<open>Fix token refresh\<close>: every \<open>[auth] \<close> is gone from the title, not the prefix alone.
\<close>

theorem checklist_removes_every_occurrence:
  "issue_fields (FromDocument refresh_task) =
     Inr (''[auth] Fix [auth] token refresh'', ''Refresh the token.'', [PStr ''oden-epic'', PStr ''auth''])
 \<and> issue_title refresh_issue = ''[auth] Fix [auth] token refresh''
 \<and> checklist_line ''auth'' refresh_issue = ''- [ ] #12: Fix token refresh''
 \<and> py_split nl (epic_body ''auth'' [refresh_issue]) ! 6 = ''- [ ] #12: Fix token refresh''"
proof -
  have a: "issue_fields (FromDocument refresh_task) =
      Inr (''[auth] Fix [auth] token refresh'', ''Refresh the token.'', [PStr ''oden-epic'', PStr ''auth''])"
    by (simp add: refresh_task_def)
  have b: "issue_title refresh_issue = ''[auth] Fix [auth] token refresh''"
    by (simp add: refresh_issue_def)
  have c: "checklist_line ''auth'' refresh_issue = ''- [ ] #12: Fix token refresh''"
    by (simp add: checklist_line_def refresh_issue_def)
  have d: "py_split nl (epic_body ''auth'' [refresh_issue]) ! 6 = ''- [ ] #12: Fix token refresh''"
    by (simp add: epic_body_def c nl_def clipboard_def bar_chart_def label_mark_def dec_nat.simps
        char_of_eq_iff char_is_char_of numeral_nat)
  from a b c d show ?thesis by blast
qed

end
